theory Spec2Isabelle
  imports Complex_Main "HOL-Library.Word" "HOL-Library.Signed_Division"
begin

unbundle bit_operations_syntax

section \<open>Data model\<close>

text \<open>
  The link layer of \<^verbatim>\<open>linklayer1.c\<close> and the simulated physical layer of
  \<^verbatim>\<open>sim-physical.c\<close>, as functions over an explicit state.

  \<^item> A C \<^verbatim>\<open>byte\<close> (\<^verbatim>\<open>unsigned char\<close>) is an 8-bit word. The cast \<^verbatim>\<open>(byte) e\<close> and the
    implicit conversion on assignment are \<open>word_of_int\<close>; the promotion of a byte to
    \<^verbatim>\<open>int\<close> is \<open>uint\<close>.
  \<^item> A C \<^verbatim>\<open>int\<close> or \<^verbatim>\<open>long\<close> is an \<open>int\<close>; the counters never come near the
    32-bit limits in what is proved here. The operator \<^verbatim>\<open>%\<close> truncates towards zero: it is
    \<open>smod\<close>.
  \<^item> A byte array is a \<open>byte list\<close>, written with \<open>xs[i := v]\<close> and read with \<open>xs ! i\<close>.
    An index outside the array is undefined behaviour in C; the theorems below state the
    sizes of the arrays they need. A pointer into an array (\<^verbatim>\<open>frameRx + nRx\<close>) is the
    array with an offset.
  \<^item> The static variables of both files, the standard output, the random source and the
    clock are the fields of one record, passed through every function that touches them.
\<close>

type_synonym byte = "8 word"

text \<open>A call of \<^verbatim>\<open>printf\<close>: the format string and the values of its arguments.\<close>

type_synonym out = "string \<times> int list"

record world =
  seqNumTx :: int        \<comment> \<open>transmit frame sequence number\<close>
  connected :: int       \<comment> \<open>state of the connection\<close>
  framesSent :: int      \<comment> \<open>count of frames sent\<close>
  badFrames :: int       \<comment> \<open>count of bad frames received\<close>
  goodFrames :: int      \<comment> \<open>count of good frames received\<close>
  timeouts :: int        \<comment> \<open>count of timeouts\<close>
  timerRx :: int         \<comment> \<open>time value for timeouts\<close>
  buffer :: "byte list"  \<comment> \<open>the simulated channel: array of \<^verbatim>\<open>BUFSIZE\<close> bytes\<close>
  nBytesWritten :: int   \<comment> \<open>number of bytes written to buffer\<close>
  nBytesUsed :: int      \<comment> \<open>number of bytes read from buffer\<close>
  rxTimeLimit :: int     \<comment> \<open>time limit for \<^verbatim>\<open>PHY_get\<close>\<close>
  rxProbErr :: rat       \<comment> \<open>probability of error\<close>
  randSource :: "nat \<Rightarrow> nat"  \<comment> \<open>the value \<^verbatim>\<open>rand()\<close> returns at its n-th call\<close>
  randCalls :: nat       \<comment> \<open>calls of \<^verbatim>\<open>rand()\<close> so far\<close>
  now :: int             \<comment> \<open>the processor clock, in ticks\<close>
  elapse :: "nat \<Rightarrow> nat"  \<comment> \<open>ticks that pass before the n-th call of \<^verbatim>\<open>clock()\<close>\<close>
  clockCalls :: nat      \<comment> \<open>calls of \<^verbatim>\<open>clock()\<close> so far\<close>
  stdout :: "out list"   \<comment> \<open>what has been printed\<close>

subsection \<open>Constants of \<^verbatim>\<open>linklayer.h\<close> and \<^verbatim>\<open>sim-physical.c\<close>\<close>

definition MAX_BLK :: int where "MAX_BLK = 255"
definition MOD_SEQNUM :: int where "MOD_SEQNUM = 16"
definition STARTBYTE :: int where "STARTBYTE = 206"
definition ENDBYTE :: int where "ENDBYTE = 204"
definition SEQNUMPOS :: int where "SEQNUMPOS = 2"
definition BYTECOUNTPOS :: int where "BYTECOUNTPOS = 1"
definition HEADERSIZE :: int where "HEADERSIZE = 3"
definition TRAILERSIZE :: int where "TRAILERSIZE = 2"
definition RX_WAIT :: rat where "RX_WAIT = 20"
definition PROB_ERR :: rat where "PROB_ERR = 3 / 10000"
definition BUFSIZE :: int where "BUFSIZE = 2000"

lemmas linklayer_defs =
  MAX_BLK_def MOD_SEQNUM_def STARTBYTE_def ENDBYTE_def SEQNUMPOS_def BYTECOUNTPOS_def
  HEADERSIZE_def TRAILERSIZE_def

subsection \<open>The environment: output, random numbers, time\<close>

definition printf :: "string \<Rightarrow> int list \<Rightarrow> world \<Rightarrow> world" where
  "printf fmt args w = w\<lparr>stdout := stdout w @ [(fmt, args)]\<rparr>"

text \<open>
  \<^verbatim>\<open>rand()\<close> returns a value from 0 to \<^verbatim>\<open>RAND_MAX\<close>: the next value of the random source,
  which is arbitrary. \<^verbatim>\<open>srand\<close> only chooses the sequence, so it is not modelled.
  \<^verbatim>\<open>RAND_MAX\<close> and \<^verbatim>\<open>CLOCKS_PER_SEC\<close> belong to the C library; the values are those of the
  Windows library the code is written for (it includes \<^verbatim>\<open>windows.h\<close>).
\<close>

definition RAND_MAX :: int where "RAND_MAX = 32767"
definition CLOCKS_PER_SEC :: int where "CLOCKS_PER_SEC = 1000"

definition rand :: "world \<Rightarrow> int \<times> world" where
  "rand w = (int (randSource w (randCalls w)), w\<lparr>randCalls := Suc (randCalls w)\<rparr>)"

text \<open>
  \<^verbatim>\<open>clock()\<close> returns the ticks since the program started. Time never runs backwards: an
  arbitrary, non-negative number of ticks passes before each call. \<^verbatim>\<open>Sleep(ms)\<close> takes an
  unsigned 32-bit number of milliseconds and lets that time pass.
\<close>

definition clock :: "world \<Rightarrow> int \<times> world" where
  "clock w =
     (let t = now w + int (elapse w (clockCalls w))
      in (t, w\<lparr>now := t, clockCalls := Suc (clockCalls w)\<rparr>))"

definition Sleep :: "int \<Rightarrow> world \<Rightarrow> world" where
  "Sleep ms w = w\<lparr>now := now w + (ms mod 2 ^ 32) * CLOCKS_PER_SEC div 1000\<rparr>"

text \<open>
  The cast \<^verbatim>\<open>(int)\<close> and \<^verbatim>\<open>(long)\<close> of a floating-point value truncates towards zero.
  The \<^verbatim>\<open>float\<close> and \<^verbatim>\<open>double\<close> values of the code (a time limit in seconds, a
  probability) are rationals here; their rounding is not modelled.
\<close>

definition truncate :: "rat \<Rightarrow> int" where
  "truncate x = (if x < 0 then \<lceil>x\<rceil> else \<lfloor>x\<rfloor>)"

text \<open>\<^verbatim>\<open>timeSet\<close> and \<^verbatim>\<open>timeUp\<close>.\<close>

definition timeSet :: "rat \<Rightarrow> world \<Rightarrow> int \<times> world" where
  "timeSet limit w =
     (let (t, w1) = clock w
      in (t + truncate (limit * of_int CLOCKS_PER_SEC), w1))"

definition timeUp :: "int \<Rightarrow> world \<Rightarrow> int \<times> world" where
  "timeUp timeLimit w =
     (let (t, w1) = clock w
      in if t < timeLimit then (0, w1) else (1, w1))"

section \<open>The frame codec\<close>

text \<open>
  \<^verbatim>\<open>buildDataFrame\<close>: the loop that copies the data bytes into the frame and adds them up,
  then the function. It returns the frame array and the size of the frame.
\<close>

function buildDataFrame_loop ::
  "byte list \<Rightarrow> byte list \<Rightarrow> int \<Rightarrow> int \<Rightarrow> int \<Rightarrow> byte list \<times> int" where
  "buildDataFrame_loop frameTx dataTx nData i checkSum =
     (if i < nData
      then buildDataFrame_loop (frameTx[nat (i + HEADERSIZE) := dataTx ! nat i]) dataTx nData
             (i + 1) (checkSum + uint (dataTx ! nat i))
      else (frameTx, checkSum))"
  by pat_completeness auto
termination
  by (relation "measure (\<lambda>(frameTx, dataTx, nData, i, checkSum). nat (nData - i))") auto

declare buildDataFrame_loop.simps [simp del]

definition buildDataFrame :: "byte list \<Rightarrow> byte list \<Rightarrow> int \<Rightarrow> int \<Rightarrow> byte list \<times> int" where
  "buildDataFrame frameTx dataTx nData seq =
     (let f1 = frameTx[0 := word_of_int STARTBYTE];
          f2 = f1[nat BYTECOUNTPOS := word_of_int (HEADERSIZE + nData + TRAILERSIZE)];
          f3 = f2[nat SEQNUMPOS := word_of_int seq];
          (f4, checkSum) = buildDataFrame_loop f3 dataTx nData 0 0;
          checkSum' = (256 - (checkSum smod 256)) smod 256;
          f5 = f4[nat (HEADERSIZE + nData) := word_of_int checkSum'];
          f6 = f5[nat (HEADERSIZE + nData + 1) := word_of_int ENDBYTE]
      in (f6, HEADERSIZE + nData + TRAILERSIZE))"

text \<open>
  \<^verbatim>\<open>checkFrame\<close>: the loop that adds up the data bytes and the checksum byte, then the
  function. It prints the reason when it rejects a frame.
\<close>

function checkFrame_loop :: "byte list \<Rightarrow> int \<Rightarrow> int \<Rightarrow> int \<Rightarrow> int" where
  "checkFrame_loop frameRx nData i checkSum =
     (if i < HEADERSIZE + nData + 1
      then checkFrame_loop frameRx nData (i + 1) (checkSum + uint (frameRx ! nat i))
      else checkSum)"
  by pat_completeness auto
termination
  by (relation "measure (\<lambda>(frameRx, nData, i, checkSum). nat (HEADERSIZE + nData + 1 - i))") auto

declare checkFrame_loop.simps [simp del]

definition checkFrame :: "byte list \<Rightarrow> int \<Rightarrow> world \<Rightarrow> int \<times> world" where
  "checkFrame frameRx nFrame w =
     (let nData = nFrame - (HEADERSIZE + TRAILERSIZE) in
      if uint (frameRx ! 0) \<noteq> STARTBYTE
      then (0, printf ''LLCF: Frame bad - start marker\<newline>'' [] w)
      else if uint (frameRx ! nat (nFrame - 1)) \<noteq> ENDBYTE
      then (0, printf ''LLCF: Frame bad - end marker\<newline>'' [] w)
      else let checkSum = checkFrame_loop frameRx nData HEADERSIZE 0 in
        if checkSum smod 256 \<noteq> 0
        then (0, printf ''LLCF: Frame bad - checksum failed\<newline>'' [] w)
        else if nFrame \<noteq> uint (frameRx ! nat BYTECOUNTPOS)
        then (0, printf ''LLCF: Frame bad - byte count failed\<newline>'' [] w)
        else (1, w))"

text \<open>
  \<^verbatim>\<open>processFrame\<close>: it returns the number of bytes extracted, the caller's data array and
  the sequence number it stores through \<^verbatim>\<open>seqNum\<close>.
\<close>

function processFrame_loop :: "byte list \<Rightarrow> byte list \<Rightarrow> int \<Rightarrow> int \<Rightarrow> byte list" where
  "processFrame_loop frameRx dataRx nData i =
     (if i < nData
      then processFrame_loop frameRx (dataRx[nat i := frameRx ! nat (HEADERSIZE + i)]) nData (i + 1)
      else dataRx)"
  by pat_completeness auto
termination
  by (relation "measure (\<lambda>(frameRx, dataRx, nData, i). nat (nData - i))") auto

declare processFrame_loop.simps [simp del]

definition processFrame ::
  "byte list \<Rightarrow> int \<Rightarrow> byte list \<Rightarrow> int \<Rightarrow> int \<times> byte list \<times> int" where
  "processFrame frameRx nFrame dataRx maxData =
     (let seqNum = uint (frameRx ! nat SEQNUMPOS);
          nData0 = nFrame - HEADERSIZE - TRAILERSIZE;
          nData = (if nData0 > maxData then maxData else nData0)
      in (nData, processFrame_loop frameRx dataRx nData 0, seqNum))"

text \<open>\<^verbatim>\<open>next\<close>: the sequence number after \<open>seq\<close>.\<close>

definition next_seq :: "int \<Rightarrow> int" where
  "next_seq seq = (seq + 1) smod MOD_SEQNUM"

section \<open>The simulated physical layer\<close>

text \<open>\<^verbatim>\<open>PHY_open\<close> and \<^verbatim>\<open>PHY_close\<close>.\<close>

definition PHY_open ::
  "int \<Rightarrow> int \<Rightarrow> int \<Rightarrow> int \<Rightarrow> int \<Rightarrow> int \<Rightarrow> rat \<Rightarrow> world \<Rightarrow> int \<times> world" where
  "PHY_open portNum bitRate nDataBits parity rxTimeConst rxTimeIntv probErr w =
     (let w1 = w\<lparr>nBytesWritten := 0, nBytesUsed := 0\<rparr>;
          w2 = w1\<lparr>rxTimeLimit := rxTimeConst + rxTimeIntv\<rparr>;
          w3 = (if probErr \<ge> 0 \<and> probErr \<le> 1 then w2\<lparr>rxProbErr := probErr\<rparr> else w2)
      in (0, w3))"

definition PHY_close :: "world \<Rightarrow> int \<times> world" where
  "PHY_close w = (0, w)"

text \<open>
  \<^verbatim>\<open>PHY_send\<close>: the loop that puts random bytes at the start of the buffer, the loop that
  copies the bytes into the buffer, adding errors (its body is \<open>PHY_send_byte\<close>), then the
  function. Its first statement,
  which puts the random bytes in when the buffer is empty, is \<open>PHY_send_start\<close>: after it,
  \<open>nBytesWritten\<close> is the number of random bytes ahead of the caller's data.
\<close>

function PHY_send_noise :: "int \<Rightarrow> world \<Rightarrow> world" where
  "PHY_send_noise i w =
     (if i < nBytesWritten w
      then (let (r, w1) = rand w
            in PHY_send_noise (i + 1)
                 (w1\<lparr>buffer := (buffer w1)[nat i := word_of_int (r smod 200)]\<rparr>))
      else w)"
  by pat_completeness auto
termination
  by (relation "measure (\<lambda>(i, w). nat (nBytesWritten w - i))") (auto simp add: rand_def)

declare PHY_send_noise.simps [simp del]

definition PHY_send_byte :: "byte list \<Rightarrow> int \<Rightarrow> int \<Rightarrow> world \<Rightarrow> world" where
  "PHY_send_byte dataTx threshold i w =
     (let byteTx = dataTx ! nat i;
          (r, w1) = rand w;
          (byteTx', w2) =
            (if r < threshold
             then (let (flip, w1') = rand w1;
                       flip' = push_bit (nat (flip smod 8)) (1 :: int)
                   in (byteTx XOR word_of_int flip',
                       printf ''PHY_send: #### Simulated error... ####\<newline>'' [] w1'))
             else (byteTx, w1))
      in w2\<lparr>buffer := (buffer w2)[nat (nBytesWritten w2 + i) := byteTx']\<rparr>)"

function PHY_send_copy :: "byte list \<Rightarrow> int \<Rightarrow> int \<Rightarrow> int \<Rightarrow> world \<Rightarrow> world" where
  "PHY_send_copy dataTx nBytesSent threshold i w =
     (if i < nBytesSent
      then PHY_send_copy dataTx nBytesSent threshold (i + 1) (PHY_send_byte dataTx threshold i w)
      else w)"
  by pat_completeness auto
termination
  by (relation "measure (\<lambda>(dataTx, nBytesSent, threshold, i, w). nat (nBytesSent - i))") auto

declare PHY_send_copy.simps [simp del]

definition PHY_send_start :: "world \<Rightarrow> world" where
  "PHY_send_start w =
     (if nBytesWritten w = 0
      then (let (r, w') = rand w
            in PHY_send_noise 0 (w'\<lparr>nBytesWritten := 4 + r smod 16\<rparr>))
      else w)"

definition PHY_send :: "byte list \<Rightarrow> int \<Rightarrow> world \<Rightarrow> int \<times> world" where
  "PHY_send dataTx nBytesToSend w =
     (let w1 = PHY_send_start w;
          (nBytesSent, w2) =
            (if nBytesWritten w1 + nBytesToSend > BUFSIZE
             then (BUFSIZE - nBytesWritten w1, printf ''PHY SIM: Buffer full\<newline>'' [] w1)
             else (nBytesToSend, w1));
          threshold =
            (if rxProbErr w2 \<noteq> 0
             then 1 + truncate (8 * of_int RAND_MAX * rxProbErr w2)
             else 0);
          w3 = PHY_send_copy dataTx nBytesSent threshold 0 w2
      in (nBytesSent, w3\<lparr>nBytesWritten := nBytesWritten w3 + nBytesSent\<rparr>))"

text \<open>
  \<^verbatim>\<open>PHY_get\<close>: \<open>dataRx\<close> and \<open>off\<close> are the array and the position in it that the pointer
  argument points to. It returns the number of bytes got, the array and the state.
\<close>

function PHY_get_copy :: "byte list \<Rightarrow> nat \<Rightarrow> int \<Rightarrow> int \<Rightarrow> world \<Rightarrow> byte list" where
  "PHY_get_copy dataRx off nBytesGot i w =
     (if i < nBytesGot
      then PHY_get_copy (dataRx[off + nat i := buffer w ! nat (nBytesUsed w + i)]) off nBytesGot
             (i + 1) w
      else dataRx)"
  by pat_completeness auto
termination
  by (relation "measure (\<lambda>(dataRx, off, nBytesGot, i, w). nat (nBytesGot - i))") auto

declare PHY_get_copy.simps [simp del]

definition PHY_get :: "byte list \<Rightarrow> nat \<Rightarrow> int \<Rightarrow> world \<Rightarrow> int \<times> byte list \<times> world" where
  "PHY_get dataRx off nBytesToGet w =
     (let nBytesAvailable = nBytesWritten w - nBytesUsed w in
      if nBytesAvailable = 0
      then (let (r, w1) = rand w;
                dataRx' = dataRx[off := word_of_int (r smod 256)];
                w2 = (if rxTimeLimit w1 = 0 then Sleep 10000 w1 else Sleep (rxTimeLimit w1) w1)
            in (1, dataRx', w2))
      else (let nBytesGot = (if nBytesToGet > nBytesAvailable then nBytesAvailable
                             else nBytesToGet);
                dataRx' = PHY_get_copy dataRx off nBytesGot 0 w;
                w1 = w\<lparr>nBytesUsed := nBytesUsed w + nBytesGot\<rparr>;
                w2 = (if nBytesUsed w1 = nBytesWritten w1
                      then w1\<lparr>nBytesWritten := 0, nBytesUsed := 0\<rparr> else w1)
            in (nBytesGot, dataRx', w2)))"

section \<open>The link layer\<close>

text \<open>\<^verbatim>\<open>LL_connect\<close> and \<^verbatim>\<open>LL_discon\<close>. A debug argument is true when it is not 0.\<close>

definition LL_connect :: "int \<Rightarrow> world \<Rightarrow> int \<times> world" where
  "LL_connect debug w =
     (let (retCode, w1) = PHY_open 1 4800 8 0 1000 50 PROB_ERR w in
      if retCode = 0
      then (let w2 = w1\<lparr>connected := 1, seqNumTx := 0, framesSent := 0, badFrames := 0,
                         goodFrames := 0, timeouts := 0\<rparr>;
                w3 = (if debug \<noteq> 0 then printf ''LL: Connected\<newline>'' [] w2 else w2)
            in (0, w3))
      else (let w2 = w1\<lparr>connected := 0\<rparr>;
                w3 = printf ''LL: Failed to connect, PHY returned code %d\<newline>'' [retCode] w2
            in (- retCode, w3)))"

definition LL_discon :: "int \<Rightarrow> world \<Rightarrow> int \<times> world" where
  "LL_discon debug w =
     (let (retCode, w1) = PHY_close w;
          w2 = w1\<lparr>connected := 0\<rparr> in
      if retCode = 0
      then (let w3 =
                  (if debug \<noteq> 0
                   then printf ''LL: Received %d good and %d bad frames, had %d timeouts\<newline>''
                          [goodFrames w2, badFrames w2, timeouts w2]
                          (printf ''LL: Disconnected.  Sent %d data frames\<newline>''
                             [framesSent w2] w2)
                   else w2)
            in (0, w3))
      else (- retCode,
            printf ''LL: Failed to disconnect, PHY returned code %d\<newline>'' [retCode] w2))"

text \<open>
  \<^verbatim>\<open>LL_send\<close>. The local array \<^verbatim>\<open>frameTx\<close> of \<^verbatim>\<open>3*MAX_BLK\<close> bytes is not initialised in
  the code; it starts as zeros here, and \<^verbatim>\<open>PHY_send\<close> reads only the bytes that
  \<^verbatim>\<open>buildDataFrame\<close> has written.
\<close>

definition LL_send :: "byte list \<Rightarrow> int \<Rightarrow> int \<Rightarrow> world \<Rightarrow> int \<times> world" where
  "LL_send dataTx nData debug w =
     (if connected w = 0
      then (- 10, printf ''LL: Attempt to send while not connected\<newline>'' [] w)
      else if nData > MAX_BLK
      then (- 11, printf ''LL: Cannot send block of %d bytes, max %d\<newline>'' [nData, MAX_BLK] w)
      else (let (frameTx, nFrame) =
                  buildDataFrame (replicate (nat (3 * MAX_BLK)) 0) dataTx nData (seqNumTx w);
                (retVal, w1) = PHY_send frameTx nFrame w in
            if retVal \<noteq> nFrame
            then (- 12, printf ''LL: Block %d, failed to send frame\<newline>'' [seqNumTx w1] w1)
            else (let w2 = (if debug \<noteq> 0
                            then printf ''LL: Sent frame %d bytes, block %d\<newline>''
                                   [nFrame, seqNumTx w1] w1
                            else w1);
                      w3 = w2\<lparr>framesSent := framesSent w2 + 1\<rparr>;
                      w4 = w3\<lparr>seqNumTx := next_seq (seqNumTx w3)\<rparr>
                  in (0, w4))))"

text \<open>
  \<^verbatim>\<open>getFrame\<close>. Its two loops end when a byte arrives or the time is up, so they may run for
  ever: each is a partial function, \<open>None\<close> when it does not end. A loop gives \<open>Inl\<close> when
  the function returns from inside it, and \<open>Inr\<close> when the loop ends. The operator
  \<^verbatim>\<open>&&\<close> calls \<^verbatim>\<open>timeUp\<close> only when its left side is true.

  The first loop searches for the start of frame marker.
\<close>

type_synonym frame_result = "int \<times> byte list \<times> world"

partial_function (option) getFrame_search ::
  "byte list \<Rightarrow> world \<Rightarrow> (frame_result + frame_result) option" where
  "getFrame_search frameRx w =
     (case PHY_get frameRx 0 1 w of (retVal, frameRx1, w1) \<Rightarrow>
        if retVal < 0 then Some (Inl (retVal, frameRx1, w1))
        else if retVal < 1 \<or> uint (frameRx1 ! 0) \<noteq> STARTBYTE
        then (case timeUp (timerRx w1) w1 of (up, w2) \<Rightarrow>
                if up = 0 then getFrame_search frameRx1 w2
                else Some (Inr (retVal, frameRx1, w2)))
        else Some (Inr (retVal, frameRx1, w1)))"

text \<open>
  The second loop collects the rest of the frame. It does not store what \<^verbatim>\<open>PHY_get\<close>
  returns: \<open>retVal\<close> is still the value returned for the byte count byte.
\<close>

partial_function (option) getFrame_collect ::
  "int \<Rightarrow> int \<Rightarrow> int \<Rightarrow> byte list \<Rightarrow> world \<Rightarrow> (frame_result + frame_result) option" where
  "getFrame_collect retVal byteCount nRx frameRx w =
     (case PHY_get frameRx (nat nRx) 1 w of (unused, frameRx1, w1) \<Rightarrow>
        if retVal < 0 then Some (Inl (retVal, frameRx1, w1))
        else (let nRx1 = nRx + retVal in
              if nRx1 < byteCount
              then (case timeUp (timerRx w1) w1 of (up, w2) \<Rightarrow>
                      if up = 0 then getFrame_collect retVal byteCount nRx1 frameRx1 w2
                      else Some (Inr (nRx1, frameRx1, w2)))
              else Some (Inr (nRx1, frameRx1, w1))))"

definition getFrame :: "byte list \<Rightarrow> int \<Rightarrow> rat \<Rightarrow> world \<Rightarrow> frame_result option" where
  "getFrame frameRx maxSize timeLimit w =
     (let (t, w0) = timeSet timeLimit w;
          w1 = w0\<lparr>timerRx := t\<rparr> in
      case getFrame_search frameRx w1 of
        None \<Rightarrow> None
      | Some (Inl r) \<Rightarrow> Some r
      | Some (Inr (retVal0, frameRx1, w2)) \<Rightarrow>
          (case PHY_get frameRx1 1 1 w2 of (retVal, frameRx2, w3) \<Rightarrow>
             if retVal < 0 then Some (retVal, frameRx2, w3)
             else (let byteCount = uint (frameRx2 ! nat BYTECOUNTPOS) in
                   case timeUp (timerRx w3) w3 of (up, w4) \<Rightarrow>
                     if up \<noteq> 0
                     then Some (0, frameRx2,
                            printf ''LLGF: Timeout with %d bytes received\<newline>'' [0] w4)
                     else (case getFrame_collect retVal byteCount 2 frameRx2 w4 of
                             None \<Rightarrow> None
                           | Some (Inl r) \<Rightarrow> Some r
                           | Some (Inr (nRx, frameRx3, w5)) \<Rightarrow>
                               (case timeUp (timerRx w5) w5 of (up', w6) \<Rightarrow>
                                  if up' \<noteq> 0
                                  then Some (0, frameRx3,
                                         printf ''LLGF: Timeout with %d bytes received\<newline>''
                                           [nRx] w6)
                                  else Some (nRx, frameRx3, w6))))))"

text \<open>\<^verbatim>\<open>printFrame\<close>: the loops that print some bytes with one format, then the function.\<close>

function printFrame_group :: "string \<Rightarrow> byte list \<Rightarrow> int \<Rightarrow> int \<Rightarrow> int \<Rightarrow> world \<Rightarrow> world" where
  "printFrame_group fmt frame nByte i j w =
     (if j < 10 \<and> i + j < nByte
      then printFrame_group fmt frame nByte i (j + 1) (printf fmt [uint (frame ! nat (i + j))] w)
      else w)"
  by pat_completeness auto
termination
  by (relation "measure (\<lambda>(fmt, frame, nByte, i, j, w). nat (10 - j))") auto

declare printFrame_group.simps [simp del]

function printFrame_rows :: "byte list \<Rightarrow> int \<Rightarrow> int \<Rightarrow> world \<Rightarrow> world" where
  "printFrame_rows frame nByte i w =
     (if i < nByte
      then (let w1 = printFrame_group ''%3d '' frame nByte i 0 w;
                w2 = printf '':  '' [] w1;
                w3 = printFrame_group ''%c'' frame nByte i 0 w2;
                w4 = printf ''\<newline>'' [] w3
            in printFrame_rows frame nByte (i + 10) w4)
      else w)"
  by pat_completeness auto
termination
  by (relation "measure (\<lambda>(frame, nByte, i, w). nat (nByte - i))") auto

declare printFrame_rows.simps [simp del]

function printFrame_range :: "string \<Rightarrow> byte list \<Rightarrow> int \<Rightarrow> int \<Rightarrow> world \<Rightarrow> world" where
  "printFrame_range fmt frame hi j w =
     (if j < hi
      then printFrame_range fmt frame hi (j + 1) (printf fmt [uint (frame ! nat j)] w)
      else w)"
  by pat_completeness auto
termination
  by (relation "measure (\<lambda>(fmt, frame, hi, j, w). nat (hi - j))") auto

declare printFrame_range.simps [simp del]

definition printFrame :: "byte list \<Rightarrow> int \<Rightarrow> world \<Rightarrow> world" where
  "printFrame frame nByte w =
     (if nByte \<le> 50
      then printFrame_rows frame nByte 0 w
      else (let w1 = printFrame_range ''%3d '' frame 10 0 w;
                w2 = printf '':  '' [] w1;
                w3 = printFrame_range ''%c'' frame 10 0 w2;
                w4 = printf ''\<newline> - - -\<newline>'' [] w3;
                w5 = printFrame_range ''%3d '' frame nByte (nByte - 10) w4;
                w6 = printf '':  '' [] w5;
                w7 = printFrame_range ''%c'' frame nByte (nByte - 10) w6
            in printf ''\<newline>'' [] w7))"

text \<open>
  \<^verbatim>\<open>LL_receive\<close>: the loop that fills the caller's array with 10 dummy bytes, then the
  function. It returns its value, the caller's array and the state.
\<close>

function LL_receive_dummy :: "byte list \<Rightarrow> int \<Rightarrow> byte list" where
  "LL_receive_dummy dataRx i =
     (if i < 10 then LL_receive_dummy (dataRx[nat i := 35]) (i + 1) else dataRx)"
  by pat_completeness auto
termination
  by (relation "measure (\<lambda>(dataRx, i). nat (10 - i))") auto

declare LL_receive_dummy.simps [simp del]

definition LL_receive :: "byte list \<Rightarrow> int \<Rightarrow> int \<Rightarrow> world \<Rightarrow> frame_result option" where
  "LL_receive dataRx maxData debug w =
     (if connected w = 0
      then Some (- 10, dataRx, printf ''LL: Attempt to receive while not connected\<newline>'' [] w)
      else (case getFrame (replicate (nat (3 * MAX_BLK)) 0) (3 * MAX_BLK) RX_WAIT w of
              None \<Rightarrow> None
            | Some (nFrame, frameRx, w1) \<Rightarrow>
                if nFrame < 0 then Some (- 9, dataRx, w1)
                else if nFrame = 0
                then (let w2 = printf ''LL: Timeout trying to receive frame\<newline>'' [] w1
                      in Some (- 5, dataRx, w2\<lparr>timeouts := timeouts w2 + 1\<rparr>))
                else (let w2 = (if debug \<noteq> 0
                                then printf ''LL: Got frame, %d bytes\<newline>'' [nFrame] w1
                                else w1);
                          (good, w3) = checkFrame frameRx nFrame w2 in
                      if good = 0
                      then (let w4 = (if debug \<noteq> 0
                                      then printf ''LL: Bad frame received\<newline>'' [] w3
                                      else w3);
                                w5 = printFrame frameRx nFrame w4;
                                w6 = w5\<lparr>badFrames := badFrames w5 + 1\<rparr>
                            in Some (10, LL_receive_dummy dataRx 0, w6))
                      else (let w4 = (if debug \<noteq> 0
                                      then printf ''LL: Good frame received\<newline>'' [] w3
                                      else w3);
                                w5 = w4\<lparr>goodFrames := goodFrames w4 + 1\<rparr>;
                                (nData, dataRx', seqNumRx) =
                                  processFrame frameRx nFrame dataRx maxData;
                                w6 = (if debug \<noteq> 0
                                      then printf ''LL: Received block %d with %d data bytes\<newline>''
                                             [seqNumRx, nData] w5
                                      else w5)
                            in Some (nData, dataRx', w6)))))"

section \<open>Runs and observations\<close>

text \<open>
  The state when the program starts: the static variables are zero, nothing has been
  printed. The random source and the passing of time are given.
\<close>

definition start_world :: "(nat \<Rightarrow> nat) \<Rightarrow> (nat \<Rightarrow> nat) \<Rightarrow> world" where
  "start_world rs el =
     \<lparr>seqNumTx = 0, connected = 0, framesSent = 0, badFrames = 0, goodFrames = 0,
      timeouts = 0, timerRx = 0, buffer = replicate (nat BUFSIZE) 0, nBytesWritten = 0,
      nBytesUsed = 0, rxTimeLimit = 0, rxProbErr = 0, randSource = rs, randCalls = 0,
      now = 0, elapse = el, clockCalls = 0, stdout = []\<rparr>"

text \<open>The state without what has been printed.\<close>

definition quiet :: "world \<Rightarrow> world" where
  "quiet w = w\<lparr>stdout := []\<rparr>"

text \<open>The sum of the first \<open>nData\<close> bytes of an array.\<close>

definition dataSum :: "byte list \<Rightarrow> int \<Rightarrow> int" where
  "dataSum dataTx nData = (\<Sum>k = 0..<nat nData. uint (dataTx ! k))"

text \<open>
  Consecutive calls of \<^verbatim>\<open>LL_send\<close>, each with its data, size and debug argument: the values
  they return and the final state.
\<close>

fun LL_send_calls :: "(byte list \<times> int \<times> int) list \<Rightarrow> world \<Rightarrow> int list \<times> world" where
  "LL_send_calls [] w = ([], w)"
| "LL_send_calls ((dataTx, nData, debug) # calls) w =
     (let (r, w1) = LL_send dataTx nData debug w;
          (rs, w2) = LL_send_calls calls w1
      in (r # rs, w2))"

section \<open>The frame codec: proofs\<close>

lemma buildDataFrame_loop_length:
  "length (fst (buildDataFrame_loop frameTx dataTx nData i checkSum)) = length frameTx"
  by (induction frameTx dataTx nData i checkSum rule: buildDataFrame_loop.induct)
    (subst buildDataFrame_loop.simps, simp)

lemma buildDataFrame_loop_sum:
  "0 \<le> i \<Longrightarrow> snd (buildDataFrame_loop frameTx dataTx nData i checkSum) =
     checkSum + (\<Sum>k = nat i..<nat nData. uint (dataTx ! k))"
proof (induction frameTx dataTx nData i checkSum rule: buildDataFrame_loop.induct)
  case (1 frameTx dataTx nData i checkSum)
  show ?case
  proof (cases "i < nData")
    case True
    with 1 have "nat (i + 1) = Suc (nat i)" "nat i < nat nData" by simp_all
    with 1 True show ?thesis
      by (subst buildDataFrame_loop.simps) (simp add: sum.atLeast_Suc_lessThan)
  next
    case False
    with 1 show ?thesis by (subst buildDataFrame_loop.simps) simp
  qed
qed

lemma buildDataFrame_loop_nth:
  "0 \<le> i \<Longrightarrow> nat nData + 3 \<le> length frameTx \<Longrightarrow>
   fst (buildDataFrame_loop frameTx dataTx nData i checkSum) ! k =
     (if nat i + 3 \<le> k \<and> k < nat nData + 3 then dataTx ! (k - 3) else frameTx ! k)"
proof (induction frameTx dataTx nData i checkSum rule: buildDataFrame_loop.induct)
  case (1 frameTx dataTx nData i checkSum)
  show ?case
  proof (cases "i < nData")
    case True
    with 1 have n: "nat (i + 1) = Suc (nat i)" "nat i < nat nData" "nat (i + HEADERSIZE) = nat i + 3"
      by (simp_all add: HEADERSIZE_def nat_add_distrib)
    with 1 True show ?thesis
      by (subst buildDataFrame_loop.simps) (auto simp add: nth_list_update)
  next
    case False
    with 1 show ?thesis by (subst buildDataFrame_loop.simps) auto
  qed
qed

lemma checkFrame_loop_sum:
  "0 \<le> i \<Longrightarrow> checkFrame_loop frameRx nData i checkSum =
     checkSum + (\<Sum>k = nat i..<nat (nData + 4). uint (frameRx ! k))"
proof (induction frameRx nData i checkSum rule: checkFrame_loop.induct)
  case (1 frameRx nData i checkSum)
  show ?case
  proof (cases "i < HEADERSIZE + nData + 1")
    case True
    with 1 have "nat (i + 1) = Suc (nat i)" "nat i < nat (nData + 4)" by (simp_all add: HEADERSIZE_def)
    with 1 True show ?thesis
      by (subst checkFrame_loop.simps) (simp add: sum.atLeast_Suc_lessThan)
  next
    case False
    with 1 show ?thesis by (subst checkFrame_loop.simps) (simp add: HEADERSIZE_def)
  qed
qed

lemma processFrame_loop_length:
  "length (processFrame_loop frameRx dataRx nData i) = length dataRx"
  by (induction frameRx dataRx nData i rule: processFrame_loop.induct)
    (subst processFrame_loop.simps, simp)

lemma processFrame_loop_nth:
  "0 \<le> i \<Longrightarrow> nat nData \<le> length dataRx \<Longrightarrow>
   processFrame_loop frameRx dataRx nData i ! k =
     (if nat i \<le> k \<and> k < nat nData then frameRx ! (k + 3) else dataRx ! k)"
proof (induction frameRx dataRx nData i rule: processFrame_loop.induct)
  case (1 frameRx dataRx nData i)
  show ?case
  proof (cases "i < nData")
    case True
    with 1 have n: "nat (i + 1) = Suc (nat i)" "nat i < nat nData" "nat (HEADERSIZE + i) = nat i + 3"
      by (simp_all add: HEADERSIZE_def nat_add_distrib)
    with 1 True show ?thesis
      by (subst processFrame_loop.simps) (auto simp add: nth_list_update)
  next
    case False
    with 1 show ?thesis by (subst processFrame_loop.simps) auto
  qed
qed

lemma dataSum_nonneg: "0 \<le> dataSum dataTx nData"
  by (simp add: dataSum_def sum_nonneg)

lemma buildDataFrame_snd: "snd (buildDataFrame frameTx dataTx nData seq) = nData + 5"
  by (simp add: buildDataFrame_def Let_def case_prod_beta linklayer_defs)

lemma buildDataFrame_length:
  "length (fst (buildDataFrame frameTx dataTx nData seq)) = length frameTx"
  by (simp add: buildDataFrame_def Let_def case_prod_beta buildDataFrame_loop_length)

lemma buildDataFrame_fst:
  "fst (buildDataFrame frameTx dataTx nData seq) =
    (fst (buildDataFrame_loop
       (frameTx[0 := word_of_int STARTBYTE, 1 := word_of_int (nData + 5), 2 := word_of_int seq])
       dataTx nData 0 0))
    [nat (nData + 3) := word_of_int ((256 - dataSum dataTx nData mod 256) mod 256),
     nat (nData + 4) := word_of_int ENDBYTE]"
proof -
  have s: "(256 - dataSum dataTx nData smod 256) smod 256 = (256 - dataSum dataTx nData mod 256) mod 256"
    using dataSum_nonneg [of dataTx nData]
    by (simp add: smod_mod_positive)
  have e: "snd (buildDataFrame_loop f dataTx nData 0 0) = dataSum dataTx nData" for f
    by (simp add: buildDataFrame_loop_sum dataSum_def)
  show ?thesis
    unfolding buildDataFrame_def Let_def case_prod_beta e s
    by (simp add: HEADERSIZE_def TRAILERSIZE_def BYTECOUNTPOS_def SEQNUMPOS_def add.commute)
qed


lemma buildDataFrame_nth:
  assumes "0 \<le> nData" and "nat nData + 5 \<le> length frameTx"
  shows "fst (buildDataFrame frameTx dataTx nData seq) ! k =
    (if k = 0 then word_of_int STARTBYTE
     else if k = 1 then word_of_int (nData + 5)
     else if k = 2 then word_of_int seq
     else if k < nat nData + 3 then dataTx ! (k - 3)
     else if k = nat nData + 3 then word_of_int ((256 - dataSum dataTx nData mod 256) mod 256)
     else if k = nat nData + 4 then word_of_int ENDBYTE
     else frameTx ! k)"
proof -
  have n: "nat (nData + 3) = nat nData + 3" "nat (nData + 4) = nat nData + 4"
    using assms by simp_all
  have l: "0 < length frameTx"
    using assms by (cases frameTx) simp_all
  show ?thesis
    unfolding buildDataFrame_fst n
    using assms l
    by (simp add: nth_list_update buildDataFrame_loop_length buildDataFrame_loop_nth)
qed

lemma buildDataFrame_length_byte:
  assumes "0 \<le> nData" and "nat nData + 5 \<le> length frameTx"
  shows "fst (buildDataFrame frameTx dataTx nData seq) ! nat BYTECOUNTPOS = word_of_int (nData + 5)"
  using assms by (simp add: buildDataFrame_nth BYTECOUNTPOS_def)

lemma buildDataFrame_length_byte_ok:
  assumes "0 \<le> nData" and "nData \<le> 250" and "nat nData + 5 \<le> length frameTx"
  shows "uint (fst (buildDataFrame frameTx dataTx nData seq) ! nat BYTECOUNTPOS) = 5 + nData"
proof -
  have "uint (word_of_int (nData + 5) :: byte) = nData + 5"
    using assms by (simp add: uint_word_of_int del: of_int_add)
  with assms show ?thesis by (simp only: buildDataFrame_length_byte)
qed

lemma checksum_cancels:
  "0 \<le> s \<Longrightarrow> (s + uint (word_of_int ((256 - s mod 256) mod 256) :: byte)) mod 256 = (0::int)"
proof -
  have "uint (word_of_int ((256 - s mod 256) mod 256) :: byte) = (256 - s mod 256) mod 256"
    by (simp add: uint_word_of_int take_bit_eq_mod)
  moreover have "(s + (256 - s mod 256) mod 256) mod 256 = (s + (256 - s mod 256)) mod 256"
    by (rule mod_add_right_eq)
  moreover have "s + (256 - s mod 256) = 256 * (s div 256 + 1)"
    by (simp add: algebra_simps minus_mod_eq_mult_div)
  ultimately show ?thesis by (simp del: mult_Suc_right)
qed

lemma sum_list_take_drop:
  "a + m \<le> length xs \<Longrightarrow>
     sum_list (map g (take m (drop a xs))) = (\<Sum>k = a..<a + m. g (xs ! k))"
proof -
  assume l: "a + m \<le> length xs"
  have "sum_list (map g (take m (drop a xs))) = (\<Sum>i = 0..<m. g (xs ! (a + i)))"
  proof -
    have "min (length xs - a) m = m"
      using l by simp
    then show ?thesis
      by (simp add: sum_list_sum_nth)
  qed
  also have "\<dots> = (\<Sum>k = a..<a + m. g (xs ! k))"
    using sum.shift_bounds_nat_ivl [of "\<lambda>k. g (xs ! k)" 0 a m] by (simp add: add.commute)
  finally show ?thesis .
qed

lemma checkFrame_sum_payload:
  assumes "5 \<le> nFrame" and "nat nFrame \<le> length frameRx"
  shows "checkFrame_loop frameRx (nFrame - (HEADERSIZE + TRAILERSIZE)) HEADERSIZE 0 =
     sum_list (map uint (take (nat nFrame - 5) (drop 3 frameRx))) + uint (frameRx ! nat (nFrame - 2))"
proof -
  define m where "m = nat nFrame - 5"
  have n: "nat (nFrame - 1) = Suc (3 + m)" "nat (nFrame - 2) = 3 + m"
    using assms by (simp_all add: m_def)
  have l: "3 + m \<le> length frameRx"
    using assms by (simp add: m_def)
  have "checkFrame_loop frameRx (nFrame - (HEADERSIZE + TRAILERSIZE)) HEADERSIZE 0 =
      (\<Sum>k = 3..<Suc (3 + m). uint (frameRx ! k))"
    by (simp add: checkFrame_loop_sum HEADERSIZE_def TRAILERSIZE_def n)
  also have "\<dots> = (\<Sum>k = 3..<3 + m. uint (frameRx ! k)) + uint (frameRx ! (3 + m))"
    by (rule sum.atLeastLessThan_Suc) simp
  also have "(\<Sum>k = 3..<3 + m. uint (frameRx ! k)) = sum_list (map uint (take m (drop 3 frameRx)))"
    using l by (simp only: sum_list_take_drop)
  finally show ?thesis
    by (simp only: n m_def)
qed

lemma checkFrame_result:
  assumes "5 \<le> nFrame" and "nat nFrame \<le> length frameRx"
  shows "fst (checkFrame frameRx nFrame w) =
    (if uint (frameRx ! 0) = STARTBYTE
        \<and> uint (frameRx ! nat (nFrame - 1)) = ENDBYTE
        \<and> uint (frameRx ! nat BYTECOUNTPOS) = nFrame
        \<and> (sum_list (map uint (take (nat nFrame - 5) (drop 3 frameRx)))
             + uint (frameRx ! nat (nFrame - 2))) mod 256 = 0
     then 1 else 0)"
proof -
  let ?s = "sum_list (map uint (take (nat nFrame - 5) (drop 3 frameRx))) + uint (frameRx ! nat (nFrame - 2))"
  have "0 \<le> ?s"
    by (auto intro!: sum_list_nonneg add_nonneg_nonneg)
  then have "?s smod 256 = ?s mod 256"
    by (simp add: smod_mod_positive)
  then show ?thesis
    unfolding checkFrame_def Let_def checkFrame_sum_payload [OF assms]
    by auto
qed

lemma dataSum_sum_list:
  "nat nData \<le> length dataTx \<Longrightarrow>
     sum_list (map uint (take (nat nData) dataTx)) = dataSum dataTx nData"
  using sum_list_take_drop [of 0 "nat nData" dataTx uint] by (simp add: dataSum_def)

lemma buildDataFrame_payload:
  assumes "0 \<le> nData" and "nat nData + 5 \<le> length frameTx" and "nat nData \<le> length dataTx"
  shows "take (nat nData) (drop 3 (fst (buildDataFrame frameTx dataTx nData seq))) =
         take (nat nData) dataTx"
  using assms
  by (intro nth_equalityI) (simp_all add: buildDataFrame_length buildDataFrame_nth)

lemma checksum_cancels':
  "0 \<le> s \<Longrightarrow> (s + uint (word_of_int (- (s mod 256) mod 256) :: byte)) mod 256 = (0::int)"
proof -
  have "- (s mod 256) mod 256 = (256 - s mod 256) mod 256"
    by (metis minus_mod_self1 mod_mod_trivial)
  then show "0 \<le> s \<Longrightarrow> ?thesis"
    using checksum_cancels [of s] by (simp only:)
qed

lemma buildDataFrame_checkFrame:
  assumes "0 \<le> nData" and "nData \<le> 250" and "nat nData \<le> length dataTx"
    and "nat nData + 5 \<le> length frameTx"
  shows "checkFrame (fst (buildDataFrame frameTx dataTx nData seq)) (nData + 5) w = (1, w)"
proof -
  let ?f = "fst (buildDataFrame frameTx dataTx nData seq)"
  have n: "nat (nData + 5 - 1) = nat nData + 4" "nat (nData + 5 - 2) = nat nData + 3"
    "nat (nData + 5) - 5 = nat nData"
    using assms by simp_all
  have len: "nat (nData + 5) \<le> length ?f"
    using assms by (simp add: buildDataFrame_length)
  have b: "uint (word_of_int (nData + 5) :: byte) = nData + 5"
    using assms by (simp add: uint_word_of_int del: of_int_add)
  have "fst (checkFrame ?f (nData + 5) w) = 1"
    using assms
    by (simp only: checkFrame_result [OF _ len] n buildDataFrame_payload dataSum_sum_list)
      (simp add: buildDataFrame_nth checksum_cancels' dataSum_nonneg b linklayer_defs
        del: of_int_add)
  then show ?thesis
    by (auto simp add: checkFrame_def Let_def split: if_splits)
qed

lemma processFrame_result:
  assumes "0 \<le> nData" and "nData \<le> maxData" and "nat nData \<le> length dataRx"
  shows "processFrame frameRx (nData + 5) dataRx maxData =
    (nData, processFrame_loop frameRx dataRx nData 0, uint (frameRx ! 2))"
  using assms by (simp add: processFrame_def Let_def linklayer_defs)

lemma processFrame_loop_take:
  assumes "0 \<le> nData" and "nat nData \<le> length dataRx" and "nat nData + 3 \<le> length frameRx"
  shows "take (nat nData) (processFrame_loop frameRx dataRx nData 0) =
         take (nat nData) (drop 3 frameRx)"
  using assms
  by (intro nth_equalityI)
    (simp_all add: processFrame_loop_length processFrame_loop_nth add.commute)

text \<open>
  Claim C2. For every payload of 0 to 250 bytes (the first \<open>nData\<close> bytes of \<open>dataTx\<close>)
  and every sequence number from 0 to 15, \<open>checkFrame\<close> accepts the frame that
  \<open>buildDataFrame\<close> builds, printing nothing, and \<open>processFrame\<close> on that frame gives back
  the number of payload bytes, the payload bytes and the sequence number, when the receive
  array and \<open>maxData\<close> are at least as large as the payload. The frame array holds at least
  the \<open>nData + 5\<close> bytes of the frame.
\<close>

theorem build_check_process_roundtrip:
  assumes "0 \<le> nData" and "nData \<le> 250" and "nat nData \<le> length dataTx"
    and "0 \<le> seq" and "seq \<le> 15"
    and "nat nData + 5 \<le> length frameTx"
    and "nData \<le> maxData" and "nat nData \<le> length dataRx"
  shows "case buildDataFrame frameTx dataTx nData seq of (frameRx, nFrame) \<Rightarrow>
           checkFrame frameRx nFrame w = (1, w) \<and>
           (case processFrame frameRx nFrame dataRx maxData of (n, dataRx', seqNum) \<Rightarrow>
              n = nData \<and> take (nat nData) dataRx' = take (nat nData) dataTx \<and> seqNum = seq)"
proof -
  obtain f where b: "buildDataFrame frameTx dataTx nData seq = (f, nData + 5)"
    using buildDataFrame_snd [of frameTx dataTx nData seq] by (metis prod.collapse)
  then have f: "f = fst (buildDataFrame frameTx dataTx nData seq)"
    by simp
  have c: "checkFrame f (nData + 5) w = (1, w)"
    unfolding f using assms by (simp only: buildDataFrame_checkFrame)
  have s: "uint (word_of_int seq :: byte) = seq"
    using assms by (simp add: uint_word_of_int)
  have t: "take (nat nData) (processFrame_loop f dataRx nData 0) = take (nat nData) dataTx"
    unfolding f using assms
    by (simp only: processFrame_loop_take buildDataFrame_length buildDataFrame_payload)
  have q: "uint (f ! 2) = seq"
    unfolding f using assms by (simp only: buildDataFrame_nth) (simp add: s)
  show ?thesis
    using assms
    by (simp only: b prod.case c processFrame_result t q)
qed

theorem build_check_process_roundtrip_witness:
  "(0 :: int) \<le> 3 \<and> (3 :: int) \<le> 250 \<and> nat 3 \<le> length [65, 66, 67 :: byte]
   \<and> (0 :: int) \<le> 7 \<and> (7 :: int) \<le> 15
   \<and> nat 3 + 5 \<le> length (replicate 765 (0 :: byte))
   \<and> (3 :: int) \<le> 52 \<and> nat 3 \<le> length (replicate 52 (0 :: byte))
   \<and> (case buildDataFrame (replicate 765 0) [65, 66, 67] 3 7 of (frameRx, nFrame) \<Rightarrow>
          checkFrame frameRx nFrame (start_world (\<lambda>n. 0) (\<lambda>n. 0))
            = (1, start_world (\<lambda>n. 0) (\<lambda>n. 0)) \<and>
          (case processFrame frameRx nFrame (replicate 52 0) 52 of (n, dataRx', seqNum) \<Rightarrow>
             n = 3 \<and> take (nat 3) dataRx' = take (nat 3) [65, 66, 67] \<and> seqNum = 7))"
proof -
  have "case buildDataFrame (replicate 765 0) [65, 66, 67] 3 7 of (frameRx, nFrame) \<Rightarrow>
          checkFrame frameRx nFrame (start_world (\<lambda>n. 0) (\<lambda>n. 0))
            = (1, start_world (\<lambda>n. 0) (\<lambda>n. 0)) \<and>
          (case processFrame frameRx nFrame (replicate 52 0) 52 of (n, dataRx', seqNum) \<Rightarrow>
             n = 3 \<and> take (nat 3) dataRx' = take (nat 3) [65, 66, 67] \<and> seqNum = 7)"
    by (rule build_check_process_roundtrip) simp_all
  then show ?thesis
    by simp
qed

text \<open>
  Claim C3. For every array that holds a frame of \<open>nFrame\<close> bytes, \<open>nFrame\<close> at least 5,
  \<open>checkFrame\<close> returns 1 if the first byte is the start marker, the last byte is the end
  marker, the byte at offset 1 is \<open>nFrame\<close> and the sum of the payload bytes and the
  checksum byte is 0 modulo 256; it returns 0 if any of these fails.
\<close>

theorem checkFrame_accepts_iff:
  assumes "5 \<le> nFrame" and "nat nFrame \<le> length frameRx"
  shows "fst (checkFrame frameRx nFrame w) =
    (if uint (frameRx ! 0) = STARTBYTE
        \<and> uint (frameRx ! nat (nFrame - 1)) = ENDBYTE
        \<and> uint (frameRx ! nat BYTECOUNTPOS) = nFrame
        \<and> (sum_list (map uint (take (nat nFrame - 5) (drop 3 frameRx)))
             + uint (frameRx ! nat (nFrame - 2))) mod 256 = 0
     then 1 else 0)"
  using assms by (rule checkFrame_result)

theorem checkFrame_accepts_iff_witness:
  "(5 :: int) \<le> 6 \<and> nat 6 \<le> length [206, 6, 0, 3, 253, 204 :: byte]
   \<and> fst (checkFrame [206, 6, 0, 3, 253, 204] 6 (start_world (\<lambda>n. 0) (\<lambda>n. 0))) = 1
   \<and> fst (checkFrame [206, 6, 0, 3, 252, 204] 6 (start_world (\<lambda>n. 0) (\<lambda>n. 0))) = 0"
  using checkFrame_accepts_iff [of 6 "[206, 6, 0, 3, 253, 204]" "start_world (\<lambda>n. 0) (\<lambda>n. 0)"]
    checkFrame_result [of 6 "[206, 6, 0, 3, 252, 204]" "start_world (\<lambda>n. 0) (\<lambda>n. 0)"]
  by (simp add: linklayer_defs)

end
